theory Spec2Isabelle
  imports Main
begin

section \<open>JavaScript values\<close>

text \<open>
  The handlers are TypeScript. A value that may be \<^verbatim>\<open>undefined\<close> (a query parameter,
  a key of a ConfigMap's data, an optional property) is an \<open>option\<close>; strings are
  \<open>string\<close>.

  Numbers are IEEE doubles. The model computes with the natural numbers up to \<open>2 ^ 53\<close>,
  on which \<^verbatim>\<open>Number\<close>, \<^verbatim>\<open>*\<close>, \<^verbatim>\<open>/\<close> and \<^verbatim>\<open>String\<close> are exact, with \<^verbatim>\<open>NaN\<close>, and with
  the quotients that have two decimals. \<open>Whole n\<close> is the double of value \<open>n\<close>.
  \<open>Hundredths h\<close> is the double nearest to \<open>h / 100\<close>, for \<open>h\<close> below \<open>10 ^ 15\<close> and no
  multiple of 100: a division is rounded to the nearest double, and a decimal of at most
  15 significant digits is the shortest one that reads back as its nearest double, so
  it is what \<^verbatim>\<open>String\<close> prints (\<^verbatim>\<open>String(90 / 60)\<close> is \<^verbatim>\<open>'1.5'\<close>). \<open>Other d\<close> is any
  double that is none of these. Where a built-in leaves that range (a numeric string
  that is not a plain run of decimal digits, a quotient with more than two decimals, a
  product beyond \<open>2 ^ 53\<close>) its result is left unspecified: floating-point rounding and
  the full grammar of numeric strings are not modelled, and nothing is proved there.
\<close>

typedecl other_double

datatype js_number = Whole nat | Hundredths nat | NaN | Other other_double

definition Number_other :: "string \<Rightarrow> js_number" where
  "Number_other = undefined"

definition times_other :: "js_number \<Rightarrow> nat \<Rightarrow> js_number" where
  "times_other = undefined"

definition div_other :: "js_number \<Rightarrow> nat \<Rightarrow> js_number" where
  "div_other = undefined"

definition String_other :: "js_number \<Rightarrow> string" where
  "String_other = undefined"

definition max_exact :: nat where
  "max_exact = 2 ^ 53"

definition max_decimal :: nat where
  "max_decimal = 10 ^ 15"

definition is_digit :: "char \<Rightarrow> bool" where
  "is_digit c = (c \<in> set ''0123456789'')"

definition decimal :: "string \<Rightarrow> bool" where
  "decimal s = (s \<noteq> [] \<and> list_all is_digit s)"

definition digits_value :: "string \<Rightarrow> nat" where
  "digits_value s = foldl (\<lambda>a c. 10 * a + (of_char c - 48)) 0 s"

text \<open>\<^verbatim>\<open>Number(v)\<close>: \<^verbatim>\<open>undefined\<close> gives \<^verbatim>\<open>NaN\<close>, the empty string 0, a run of decimal
  digits its value.\<close>

definition Number_js :: "string option \<Rightarrow> js_number" where
  "Number_js v =
     (case v of
        None \<Rightarrow> NaN
      | Some s \<Rightarrow>
          if s = [] then Whole 0
          else if decimal s \<and> digits_value s \<le> max_exact then Whole (digits_value s)
          else Number_other s)"

text \<open>\<^verbatim>\<open>x * m\<close> and \<^verbatim>\<open>x / d\<close> for a positive whole constant.\<close>

definition js_times :: "js_number \<Rightarrow> nat \<Rightarrow> js_number" where
  "js_times x m =
     (case x of
        Whole n \<Rightarrow> if n * m \<le> max_exact then Whole (n * m) else times_other x m
      | Hundredths h \<Rightarrow> times_other x m
      | NaN \<Rightarrow> NaN
      | Other d \<Rightarrow> times_other x m)"

definition js_div :: "js_number \<Rightarrow> nat \<Rightarrow> js_number" where
  "js_div x d =
     (case x of
        Whole n \<Rightarrow>
          if n \<le> max_exact \<and> 0 < d \<and> d dvd n then Whole (n div d)
          else if n \<le> max_exact \<and> 0 < d \<and> d \<le> max_exact \<and> d dvd 100 * n \<and>
                  100 * n div d < max_decimal
          then Hundredths (100 * n div d)
          else div_other x d
      | Hundredths h \<Rightarrow> div_other x d
      | NaN \<Rightarrow> NaN
      | Other y \<Rightarrow> div_other x d)"

fun dec_digits :: "nat \<Rightarrow> string" where
  "dec_digits n =
     (if n < 10 then [''0123456789'' ! n]
      else dec_digits (n div 10) @ [''0123456789'' ! (n mod 10)])"

declare dec_digits.simps [simp del]

text \<open>The decimals of a number of hundredths below 100 that is no multiple of 100: two
  digits, or one where the second is 0.\<close>

definition fraction_digits :: "nat \<Rightarrow> string" where
  "fraction_digits f =
     (if f mod 10 = 0 then [''0123456789'' ! (f div 10)]
      else [''0123456789'' ! (f div 10), ''0123456789'' ! (f mod 10)])"

text \<open>\<^verbatim>\<open>String(x)\<close> for a number and for a boolean.\<close>

definition String_js :: "js_number \<Rightarrow> string" where
  "String_js x =
     (case x of
        Whole n \<Rightarrow> if n \<le> max_exact then dec_digits n else String_other x
      | Hundredths h \<Rightarrow>
          if h < max_decimal \<and> h mod 100 \<noteq> 0
          then dec_digits (h div 100) @ ''.'' @ fraction_digits (h mod 100)
          else String_other x
      | NaN \<Rightarrow> ''NaN''
      | Other d \<Rightarrow> String_other x)"

definition String_bool :: "bool \<Rightarrow> string" where
  "String_bool b = (if b then ''true'' else ''false'')"

text \<open>Truthiness of a possibly undefined string (\<^verbatim>\<open>Boolean(v)\<close>, \<^verbatim>\<open>if (v)\<close>, \<^verbatim>\<open>a && b\<close>):
  \<^verbatim>\<open>undefined\<close> and the empty string are falsy, every other string is truthy.\<close>

definition Boolean_js :: "string option \<Rightarrow> bool" where
  "Boolean_js v = (case v of None \<Rightarrow> False | Some s \<Rightarrow> s \<noteq> [])"

text \<open>A template literal prints \<^verbatim>\<open>undefined\<close> by name.\<close>

definition template :: "string option \<Rightarrow> string" where
  "template v = (case v of None \<Rightarrow> ''undefined'' | Some s \<Rightarrow> s)"

text \<open>\<^verbatim>\<open>s.replace(pat, rep)\<close> with a string pattern: the first occurrence only.\<close>

fun replace_js :: "string \<Rightarrow> string \<Rightarrow> string \<Rightarrow> string" where
  "replace_js pat rep [] = (if pat = [] then rep else [])"
| "replace_js pat rep (c # cs) =
     (if take (length pat) (c # cs) = pat then rep @ drop (length pat) (c # cs)
      else c # replace_js pat rep cs)"

subsection \<open>Errors\<close>

text \<open>
  The exceptions the handlers meet. \<open>HttpError c m\<close> is the Kubernetes client's error
  for an answer of status \<open>c\<close>: it carries \<^verbatim>\<open>statusCode\<close>, \<^verbatim>\<open>response\<close> (whose
  \<^verbatim>\<open>statusCode\<close> is the same) and \<^verbatim>\<open>body\<close>. \<open>TypeError\<close> is what a property read on
  \<^verbatim>\<open>undefined\<close> throws, \<open>Error\<close> a plain error (a failed connection, a wrapped
  failure), \<open>MissingGroupError\<close> the class of the groups module.
\<close>

datatype js_error =
    HttpError nat string
  | TypeError string
  | Error string
  | MissingGroupError string

fun statusCode :: "js_error \<Rightarrow> nat option" where
  "statusCode (HttpError c m) = Some c"
| "statusCode (TypeError m) = None"
| "statusCode (Error m) = None"
| "statusCode (MissingGroupError m) = None"

text \<open>\<^verbatim>\<open>e.response?.statusCode\<close>\<close>

fun response_statusCode :: "js_error \<Rightarrow> nat option" where
  "response_statusCode (HttpError c m) = Some c"
| "response_statusCode (TypeError m) = None"
| "response_statusCode (Error m) = None"
| "response_statusCode (MissingGroupError m) = None"

fun message :: "js_error \<Rightarrow> string" where
  "message (HttpError c m) = m"
| "message (TypeError m) = m"
| "message (Error m) = m"
| "message (MissingGroupError m) = m"

text \<open>\<^verbatim>\<open>e.respose\<close>, as the update handler spells it: no error class has a property
  of that name, so the read gives \<^verbatim>\<open>undefined\<close> whatever the error is.\<close>

fun respose :: "js_error \<Rightarrow> string option" where
  "respose (HttpError c m) = None"
| "respose (TypeError m) = None"
| "respose (Error m) = None"
| "respose (MissingGroupError m) = None"

definition undefined_read :: "string \<Rightarrow> js_error" where
  "undefined_read p = TypeError (''Cannot read properties of undefined (reading '' @ p @ '')'')"

section \<open>The cluster\<close>

text \<open>
  A ConfigMap is its \<^verbatim>\<open>data\<close>, which Kubernetes allows to be missing. The cluster maps
  names to ConfigMaps. A request is one call of the API client or of the rollout
  helpers; \<open>calls\<close> lists the requests a handler has sent, in order.

  The API is the Kubernetes one: reading, patching or deleting an object that does not
  exist is answered 404, creating one that exists 409. A merge patch sets the keys it
  names; a key whose value is \<^verbatim>\<open>undefined\<close> is dropped when the patch is serialised.
  Any request may also fail for a reason of the cluster's own (\<open>fault\<close>: a refused
  permission, a lost connection), and then changes nothing.
\<close>

type_synonym configmap = "(string \<rightharpoonup> string) option"

datatype request =
    ReadConfigMap string
  | PatchConfigMap string "(string \<times> string option) list"
  | CreateConfigMap string "(string \<times> string) list"
  | DeleteConfigMap string
  | RolloutDeployment string
  | RolloutDeploymentConfig string

record kube =
  configmaps :: "string \<rightharpoonup> configmap"
  fault :: "request \<Rightarrow> js_error option"
  eager :: bool
  inflight :: "request list"
  calls :: "request list"

text \<open>A cluster at rest: nothing in flight, nothing sent yet.\<close>

definition cluster :: "(string \<rightharpoonup> configmap) \<Rightarrow> (request \<Rightarrow> js_error option) \<Rightarrow> bool \<Rightarrow> kube" where
  "cluster cms flt eg = \<lparr>configmaps = cms, fault = flt, eager = eg, inflight = [], calls = []\<rparr>"

definition no_fault :: "request \<Rightarrow> js_error option" where
  "no_fault r = None"

definition not_found :: js_error where
  "not_found = HttpError 404 ''HTTP request failed''"

definition conflict :: js_error where
  "conflict = HttpError 409 ''HTTP request failed''"

fun defined_entries :: "(string \<times> string option) list \<Rightarrow> (string \<times> string) list" where
  "defined_entries [] = []"
| "defined_entries ((key, None) # p) = defined_entries p"
| "defined_entries ((key, Some v) # p) = (key, v) # defined_entries p"

definition merge_patch :: "configmap \<Rightarrow> (string \<times> string option) list \<Rightarrow> configmap" where
  "merge_patch cm p =
     Some ((case cm of None \<Rightarrow> Map.empty | Some d \<Rightarrow> d) ++ map_of (defined_entries p))"

text \<open>Modelled from the spec: \<^verbatim>\<open>rolloutDeployment\<close> and \<^verbatim>\<open>rolloutDeploymentConfig\<close>
  (utils/deployment) are not among the sources. Section 6 of the specification gives
  them as requests to restart a workload; here they are requests that change no
  ConfigMap and fail only when the cluster makes them fail.\<close>

fun effect :: "request \<Rightarrow> kube \<Rightarrow> (js_error + configmap) \<times> kube" where
  "effect (ReadConfigMap n) k =
     (case configmaps k n of
        None \<Rightarrow> (Inl not_found, k)
      | Some cm \<Rightarrow> (Inr cm, k))"
| "effect (PatchConfigMap n p) k =
     (case configmaps k n of
        None \<Rightarrow> (Inl not_found, k)
      | Some cm \<Rightarrow>
          (Inr (merge_patch cm p), k\<lparr>configmaps := (configmaps k)(n \<mapsto> merge_patch cm p)\<rparr>))"
| "effect (CreateConfigMap n d) k =
     (case configmaps k n of
        Some cm \<Rightarrow> (Inl conflict, k)
      | None \<Rightarrow> (Inr (Some (map_of d)), k\<lparr>configmaps := (configmaps k)(n \<mapsto> Some (map_of d))\<rparr>))"
| "effect (DeleteConfigMap n) k =
     (case configmaps k n of
        None \<Rightarrow> (Inl not_found, k)
      | Some cm \<Rightarrow> (Inr cm, k\<lparr>configmaps := (configmaps k)(n := None)\<rparr>))"
| "effect (RolloutDeployment d) k = (Inr None, k)"
| "effect (RolloutDeploymentConfig d) k = (Inr None, k)"

definition serve :: "request \<Rightarrow> kube \<Rightarrow> (js_error + configmap) \<times> kube" where
  "serve r k = (case fault k r of Some e \<Rightarrow> (Inl e, k) | None \<Rightarrow> effect r k)"

subsection \<open>Promises\<close>

text \<open>
  An asynchronous computation takes the cluster and gives back either the error it
  rejects with or the value it resolves to, and the cluster afterwards.

  A call that is awaited is served before the handler goes on. A call that is not
  awaited is sent and the handler goes on at once: the request is in flight, its
  answer (also its failure) reaches nobody, and the cluster serves it either before
  the handler's next request (\<open>eager\<close>) or after the handler's last one. Both orders
  are possible for two requests sent one after the other without waiting.
\<close>

type_synonym 'a promise = "kube \<Rightarrow> (js_error + 'a) \<times> kube"

definition resolve :: "'a \<Rightarrow> 'a promise" where
  "resolve x = (\<lambda>k. (Inr x, k))"

definition reject :: "js_error \<Rightarrow> 'a promise" where
  "reject e = (\<lambda>k. (Inl e, k))"

definition bind :: "'a promise \<Rightarrow> ('a \<Rightarrow> 'b promise) \<Rightarrow> 'b promise" where
  "bind m f = (\<lambda>k. case m k of (Inl e, k') \<Rightarrow> (Inl e, k') | (Inr x, k') \<Rightarrow> f x k')"

definition catch :: "'a promise \<Rightarrow> (js_error \<Rightarrow> 'a promise) \<Rightarrow> 'a promise" where
  "catch m h = (\<lambda>k. case m k of (Inl e, k') \<Rightarrow> h e k' | (Inr x, k') \<Rightarrow> (Inr x, k'))"

definition settle :: "kube \<Rightarrow> kube" where
  "settle k = foldl (\<lambda>k' r. snd (serve r k')) (k\<lparr>inflight := []\<rparr>) (inflight k)"

definition await :: "request \<Rightarrow> configmap promise" where
  "await r = (\<lambda>k. let k1 = (if eager k then settle k else k)
                  in serve r (k1\<lparr>calls := calls k1 @ [r]\<rparr>))"

definition no_await :: "request \<Rightarrow> unit promise" where
  "no_await r = (\<lambda>k. (Inr (), k\<lparr>inflight := inflight k @ [r], calls := calls k @ [r]\<rparr>))"

text \<open>A statement \<^verbatim>\<open>await f(...);\<close> whose value is not used.\<close>

definition await_do :: "request \<Rightarrow> unit promise" where
  "await_do r = bind (await r) (\<lambda>body. resolve ())"

text \<open>The cluster once everything a handler has sent has been served.\<close>

definition settled :: "'a promise \<Rightarrow> 'a promise" where
  "settled m = (\<lambda>k. case m k of (res, k') \<Rightarrow> (res, settle k'))"

section \<open>Cluster settings\<close>

definition jupyterhubCfg :: string where
  "jupyterhubCfg = ''jupyterhub-cfg''"

definition nbcCfg :: string where
  "nbcCfg = ''notebook-controller-culler-config''"

definition segmentKeyCfg :: string where
  "segmentKeyCfg = ''odh-segment-key-config''"

definition DEFAULT_PVC_SIZE :: nat where
  "DEFAULT_PVC_SIZE = 20"

definition DEFAULT_CULLER_TIMEOUT :: nat where
  "DEFAULT_CULLER_TIMEOUT = 31536000"

definition DEFAULT_IDLENESS_CHECK_PERIOD :: string where
  "DEFAULT_IDLENESS_CHECK_PERIOD = ''1''"

record ClusterSettings =
  pvcSize :: js_number
  cullerTimeout :: js_number
  userTrackingEnabled :: "bool option"

definition DEFAULT_CLUSTER_SETTINGS :: ClusterSettings where
  "DEFAULT_CLUSTER_SETTINGS =
     \<lparr>pvcSize = Whole DEFAULT_PVC_SIZE,
      cullerTimeout = Whole DEFAULT_CULLER_TIMEOUT,
      userTrackingEnabled = None\<rparr>"

text \<open>The query of a request: each parameter is a string or missing.\<close>

record query =
  q_userTrackingEnabled :: "string option"
  q_pvcSize :: "string option"
  q_cullerTimeout :: "string option"

text \<open>Modelled from the spec: \<^verbatim>\<open>getDashboardConfig\<close> (utils/resourceUtils) is not among
  the sources. Section 6 gives its result as
  \<^verbatim>\<open>{ spec: { notebookController: { enabled } } }\<close>; the handlers read it with optional
  chaining, so \<^verbatim>\<open>spec\<close> and \<^verbatim>\<open>notebookController\<close> may be missing. The handlers take
  the configuration it returns as an argument.\<close>

record notebook_controller =
  enabled :: bool

record dashboard_spec =
  notebookController :: "notebook_controller option"

record dashboard_config =
  spec :: "dashboard_spec option"

text \<open>\<^verbatim>\<open>dashConfig.spec?.notebookController?.enabled\<close>\<close>

definition enabled_optional :: "dashboard_config \<Rightarrow> bool" where
  "enabled_optional dashConfig =
     (case spec dashConfig of
        None \<Rightarrow> False
      | Some s \<Rightarrow> (case notebookController s of None \<Rightarrow> False | Some nc \<Rightarrow> enabled nc))"

text \<open>\<^verbatim>\<open>dashConfig.spec.notebookController.enabled\<close>, which throws where a link is
  missing.\<close>

definition enabled_strict :: "dashboard_config \<Rightarrow> bool promise" where
  "enabled_strict dashConfig =
     (case spec dashConfig of
        None \<Rightarrow> reject (undefined_read ''notebookController'')
      | Some s \<Rightarrow>
          (case notebookController s of
             None \<Rightarrow> reject (undefined_read ''enabled'')
           | Some nc \<Rightarrow> resolve (enabled nc)))"

subsection \<open>patchCM\<close>

text \<open>\<^verbatim>\<open>patchCM\<close> sends one merge patch and resolves to its answer; the caller awaits
  it or not.\<close>

definition patchCM :: "string \<Rightarrow> (string \<times> string option) list \<Rightarrow> request" where
  "patchCM name patch = PatchConfigMap name patch"

subsection \<open>updateClusterSettings\<close>

datatype update_result = Result bool "string option" | No_result

text \<open>Lines 52 to 56: the tracking flag.\<close>

definition update_tracking :: "query \<Rightarrow> unit promise" where
  "update_tracking q =
     (if q_userTrackingEnabled q \<noteq> Some ''null''
      then await_do (patchCM segmentKeyCfg [(''segmentKeyEnabled'', q_userTrackingEnabled q)])
      else resolve ())"

text \<open>Lines 59 to 88: the culling ConfigMap of the notebook controller.\<close>

definition update_culling :: "query \<Rightarrow> unit promise" where
  "update_culling q =
     (let cullingTimeMin = js_div (Number_js (q_cullerTimeout q)) 60;
          isEnabled = (Number_js (q_cullerTimeout q) \<noteq> Whole DEFAULT_CULLER_TIMEOUT)
      in if \<not> isEnabled then await_do (DeleteConfigMap nbcCfg)
         else catch
           (await_do (patchCM nbcCfg
              [(''ENABLE_CULLING'', Some (String_bool isEnabled)),
               (''CULL_IDLE_TIME'', Some (String_js cullingTimeMin))]))
           (\<lambda>e. if statusCode e = Some 404
                then await_do (CreateConfigMap ''notebook-controller-culler-config''
                  [(''ENABLE_CULLING'', String_bool isEnabled),
                   (''CULL_IDLE_TIME'', String_js cullingTimeMin),
                   (''IDLENESS_CHECK_PERIOD'', DEFAULT_IDLENESS_CHECK_PERIOD)])
                else resolve ()))"

text \<open>Lines 90 to 95: the legacy ConfigMap. The patch is not awaited.\<close>

definition update_jupyterhub :: "query \<Rightarrow> unit promise" where
  "update_jupyterhub q =
     no_await (patchCM jupyterhubCfg
       [(''singleuser_pvc_size'', Some (template (q_pvcSize q) @ ''Gi'')),
        (''culler_timeout'', q_cullerTimeout q)])"

text \<open>Lines 57 to 97.\<close>

definition update_settings :: "dashboard_config \<Rightarrow> query \<Rightarrow> unit promise" where
  "update_settings dashConfig q =
     (if Boolean_js (q_pvcSize q) \<and> Boolean_js (q_cullerTimeout q)
      then (if enabled_optional dashConfig then update_culling q else update_jupyterhub q)
      else resolve ())"

text \<open>Lines 98 to 108: the rollouts.\<close>

definition update_rollout :: "dashboard_config \<Rightarrow> query \<Rightarrow> unit promise" where
  "update_rollout dashConfig q =
     bind (enabled_strict dashConfig) (\<lambda>en.
       if en then await_do (RolloutDeployment ''notebook-controller-deployment'')
       else bind (await (ReadConfigMap jupyterhubCfg)) (\<lambda>jupyterhubCM.
         case jupyterhubCM of
           None \<Rightarrow> reject (undefined_read ''singleuser_pvc_size'')
         | Some d \<Rightarrow>
             (case d ''singleuser_pvc_size'' of
                None \<Rightarrow> reject (undefined_read ''replace'')
              | Some stored \<Rightarrow>
                  bind (if Some (replace_js ''Gi'' [] stored) \<noteq> q_pvcSize q
                        then await_do (RolloutDeploymentConfig ''jupyterhub'')
                        else resolve ())
                    (\<lambda>u. if d ''culler_timeout'' \<noteq> q_cullerTimeout q
                         then await_do (RolloutDeploymentConfig ''jupyterhub-idle-culler'')
                         else resolve ()))))"

text \<open>Lines 110 to 115: the handler of the outer \<^verbatim>\<open>try\<close>. For an error that is not a
  404 it builds the log line first, reading \<^verbatim>\<open>e.respose.body.message\<close>; for a 404 it
  does nothing and the function ends without a value.\<close>

definition update_catch :: "js_error \<Rightarrow> update_result promise" where
  "update_catch e =
     (if response_statusCode e \<noteq> Some 404
      then (case respose e of
              None \<Rightarrow> reject (undefined_read ''body'')
            | Some logged \<Rightarrow>
                resolve (Result False (Some (''Unable to update cluster settings. '' @ message e))))
      else resolve No_result)"

definition updateClusterSettings :: "dashboard_config \<Rightarrow> query \<Rightarrow> update_result promise" where
  "updateClusterSettings dashConfig q =
     settled (catch
       (bind (update_tracking q) (\<lambda>u.
        bind (update_settings dashConfig q) (\<lambda>u.
        bind (update_rollout dashConfig q) (\<lambda>u.
        resolve (Result True None)))))
       update_catch)"

subsection \<open>getClusterSettings\<close>

text \<open>Lines 127 to 132.\<close>

definition read_tracking :: "ClusterSettings \<Rightarrow> ClusterSettings promise" where
  "read_tracking clusterSettings =
     catch
       (bind (await (ReadConfigMap segmentKeyCfg)) (\<lambda>segmentEnabledRes.
          case segmentEnabledRes of
            None \<Rightarrow> reject (undefined_read ''segmentKeyEnabled'')
          | Some d \<Rightarrow>
              resolve (clusterSettings
                \<lparr>userTrackingEnabled := Some (d ''segmentKeyEnabled'' = Some ''true'')\<rparr>)))
       (\<lambda>e. resolve clusterSettings)"

text \<open>Lines 134 to 152.\<close>

definition read_culling :: "ClusterSettings \<Rightarrow> ClusterSettings promise" where
  "read_culling clusterSettings =
     (let placeholder = clusterSettings
            \<lparr>pvcSize := Whole 20, cullerTimeout := Whole DEFAULT_CULLER_TIMEOUT\<rparr>
      in catch
        (bind (await (ReadConfigMap nbcCfg)) (\<lambda>res.
           case res of
             None \<Rightarrow> reject (undefined_read ''CULL_IDLE_TIME'')
           | Some d \<Rightarrow>
               (let cullIdleTime = d ''CULL_IDLE_TIME'';
                    isEnabled = Boolean_js (d ''ENABLE_CULLING'')
                in resolve
                  (if isEnabled
                   then placeholder\<lparr>cullerTimeout := js_times (Number_js cullIdleTime) 60\<rparr>
                   else placeholder))))
        (\<lambda>e. if statusCode e = Some 404 then resolve placeholder else reject e))"

text \<open>Lines 166 to 173.\<close>

definition readJupyterhubCfg :: "(js_number \<times> js_number) promise" where
  "readJupyterhubCfg =
     bind (await (ReadConfigMap jupyterhubCfg)) (\<lambda>jupyterhubCfgResponse.
       case jupyterhubCfgResponse of
         None \<Rightarrow> reject (undefined_read ''singleuser_pvc_size'')
       | Some d \<Rightarrow>
           (case d ''singleuser_pvc_size'' of
              None \<Rightarrow> reject (undefined_read ''replace'')
            | Some stored \<Rightarrow>
                resolve (Number_js (Some (replace_js ''Gi'' [] stored)),
                         Number_js (d ''culler_timeout''))))"

text \<open>Lines 154 to 160.\<close>

definition read_jupyterhub :: "ClusterSettings \<Rightarrow> ClusterSettings promise" where
  "read_jupyterhub clusterSettings =
     catch
       (bind readJupyterhubCfg (\<lambda>(pvc, timeout).
          resolve (clusterSettings\<lparr>pvcSize := pvc, cullerTimeout := timeout\<rparr>)))
       (\<lambda>e. resolve clusterSettings)"

definition getClusterSettings :: "dashboard_config \<Rightarrow> ClusterSettings promise" where
  "getClusterSettings dashConfig =
     bind (read_tracking DEFAULT_CLUSTER_SETTINGS) (\<lambda>clusterSettings.
       if enabled_optional dashConfig then read_culling clusterSettings
       else read_jupyterhub clusterSettings)"

section \<open>Groups\<close>

text \<open>
  The custom objects API holds the groups of the cluster, each with its \<^verbatim>\<open>users\<close>
  (which a group may lack). Reading a group that does not exist is answered 404; a
  read may also fail for a reason of the cluster's own.
\<close>

record custom_objects =
  groups :: "(string \<times> string list option) list"
  group_fault :: "string \<Rightarrow> js_error option"
  list_fault :: "js_error option"

definition getClusterCustomObject :: "custom_objects \<Rightarrow> string \<Rightarrow> js_error + string list option" where
  "getClusterCustomObject customObjectsApi name =
     (case group_fault customObjectsApi name of
        Some e \<Rightarrow> Inl e
      | None \<Rightarrow>
          (case map_of (groups customObjectsApi) name of
             None \<Rightarrow> Inl not_found
           | Some users \<Rightarrow> Inr users))"

definition listClusterCustomObject :: "custom_objects \<Rightarrow> js_error + string list" where
  "listClusterCustomObject customObjectsApi =
     (case list_fault customObjectsApi of
        Some e \<Rightarrow> Inl e
      | None \<Rightarrow> Inr (map fst (groups customObjectsApi)))"

definition getGroup :: "custom_objects \<Rightarrow> string \<Rightarrow> js_error + string list option" where
  "getGroup customObjectsApi adminGroup =
     (case getClusterCustomObject customObjectsApi adminGroup of
        Inl e \<Rightarrow>
          Inl (MissingGroupError (''Failed to retrieve Group '' @ adminGroup @ '', might not exist.''))
      | Inr users \<Rightarrow> Inr users)"

definition getAllGroups :: "custom_objects \<Rightarrow> js_error + string list" where
  "getAllGroups customObjectsApi =
     (case listClusterCustomObject customObjectsApi of
        Inl e \<Rightarrow> Inl (Error ''Failed to list groups.'')
      | Inr names \<Rightarrow> Inr names)"

text \<open>A request writes a ConfigMap when it patches, creates or deletes it.\<close>

fun writes :: "string \<Rightarrow> request \<Rightarrow> bool" where
  "writes n (ReadConfigMap m) = False"
| "writes n (PatchConfigMap m p) = (m = n)"
| "writes n (CreateConfigMap m d) = (m = n)"
| "writes n (DeleteConfigMap m) = (m = n)"
| "writes n (RolloutDeployment d) = False"
| "writes n (RolloutDeploymentConfig d) = False"

section \<open>Invariants of a handler\<close>

text \<open>A computation keeps a property of the cluster when the property holds afterwards
  wherever it held before, whatever the computation resolves to or rejects with.\<close>

definition keeps :: "(kube \<Rightarrow> bool) \<Rightarrow> 'a promise \<Rightarrow> bool" where
  "keeps I m = (\<forall>k. I k \<longrightarrow> I (snd (m k)))"

text \<open>The store of PVC size and timeout is untouched: both ConfigMaps are as they were
  in \<open>cms\<close>, and no request sent so far writes either.\<close>

definition untouched :: "(string \<rightharpoonup> configmap) \<Rightarrow> kube \<Rightarrow> bool" where
  "untouched cms k =
     (inflight k = [] \<and> configmaps k nbcCfg = cms nbcCfg \<and>
      configmaps k jupyterhubCfg = cms jupyterhubCfg \<and>
      list_all (\<lambda>r. \<not> writes nbcCfg r \<and> \<not> writes jupyterhubCfg r) (calls k))"

text \<open>The culling ConfigMap has been created with the data \<open>d\<close>.\<close>

definition culling_created :: "(string \<times> string) list \<Rightarrow> kube \<Rightarrow> bool" where
  "culling_created d k =
     (inflight k = [] \<and> configmaps k nbcCfg = Some (Some (map_of d)) \<and>
      CreateConfigMap nbcCfg d \<in> set (calls k))"

text \<open>The first request sent was \<open>r0\<close>.\<close>

definition starts :: "request \<Rightarrow> kube \<Rightarrow> bool" where
  "starts r0 k = (\<exists>rest. calls k = r0 # rest)"

text \<open>No request sent or in flight writes the ConfigMap \<open>n\<close>, and \<open>P\<close> holds of it.\<close>

definition frame :: "string \<Rightarrow> (configmap option \<Rightarrow> bool) \<Rightarrow> kube \<Rightarrow> bool" where
  "frame n P k =
     (list_all (\<lambda>r. \<not> writes n r) (inflight k) \<and> list_all (\<lambda>r. \<not> writes n r) (calls k) \<and>
      P (configmaps k n))"


text \<open>Two configurations of the dashboard, for the examples.\<close>

definition controller_mode :: dashboard_config where
  "controller_mode = \<lparr>spec = Some \<lparr>notebookController = Some \<lparr>enabled = True\<rparr>\<rparr>\<rparr>"

definition legacy_mode :: dashboard_config where
  "legacy_mode = \<lparr>spec = Some \<lparr>notebookController = Some \<lparr>enabled = False\<rparr>\<rparr>\<rparr>"

section \<open>Properties\<close>

subsection \<open>Requests, promises and invariants\<close>

lemma settle_rest: "inflight k = [] \<Longrightarrow> settle k = k"
  by (cases k) (simp add: settle_def)

lemmas js_defs = Number_js_def decimal_def is_digit_def digits_value_def max_exact_def
  max_decimal_def js_div_def js_times_def String_js_def fraction_digits_def dec_digits.simps
  Boolean_js_def template_def String_bool_def

lemmas io_defs = settled_def catch_def bind_def resolve_def reject_def await_do_def await_def
  no_await_def serve_def settle_def cluster_def no_fault_def not_found_def conflict_def
  patchCM_def merge_patch_def undefined_read_def

lemmas upd_defs = updateClusterSettings_def update_tracking_def update_settings_def
  update_culling_def update_jupyterhub_def update_rollout_def update_catch_def
  enabled_optional_def enabled_strict_def DEFAULT_CULLER_TIMEOUT_def DEFAULT_PVC_SIZE_def
  nbcCfg_def jupyterhubCfg_def segmentKeyCfg_def DEFAULT_IDLENESS_CHECK_PERIOD_def
  controller_mode_def legacy_mode_def

lemmas get_defs = getClusterSettings_def read_tracking_def read_culling_def
  read_jupyterhub_def readJupyterhubCfg_def DEFAULT_CLUSTER_SETTINGS_def

lemma respose_none [simp]: "respose e = None"
  by (cases e) simp_all

lemma serve_inflight [simp]: "inflight (snd (serve r k)) = inflight k"
  by (cases r) (simp_all add: serve_def split: option.splits)

lemma serve_calls [simp]: "calls (snd (serve r k)) = calls k"
  by (cases r) (simp_all add: serve_def split: option.splits)

lemma serve_fault [simp]: "fault (snd (serve r k)) = fault k"
  by (cases r) (simp_all add: serve_def split: option.splits)

lemma serve_eager [simp]: "eager (snd (serve r k)) = eager k"
  by (cases r) (simp_all add: serve_def split: option.splits)

lemma serve_configmaps: "\<not> writes n r \<Longrightarrow> configmaps (snd (serve r k)) n = configmaps k n"
  by (cases r) (simp_all add: serve_def split: option.splits)

lemma await_rest: "inflight k = [] \<Longrightarrow> await r k = serve r (k\<lparr>calls := calls k @ [r]\<rparr>)"
  by (simp add: await_def settle_rest)

lemma await_inflight: "inflight k = [] \<Longrightarrow> inflight (snd (await r k)) = []"
  by (simp add: await_rest)

lemma await_calls: "inflight k = [] \<Longrightarrow> calls (snd (await r k)) = calls k @ [r]"
  by (simp add: await_rest)

lemma await_configmaps:
  "inflight k = [] \<Longrightarrow> \<not> writes n r \<Longrightarrow> configmaps (snd (await r k)) n = configmaps k n"
  by (simp add: await_rest serve_configmaps)

lemma keeps_resolve: "keeps I (resolve x)"
  by (simp add: keeps_def resolve_def)

lemma keeps_reject: "keeps I (reject e)"
  by (simp add: keeps_def reject_def)

lemma keeps_bind: "keeps I m \<Longrightarrow> (\<And>x. keeps I (f x)) \<Longrightarrow> keeps I (bind m f)"
  unfolding keeps_def bind_def
  by (auto split: prod.splits sum.splits)

lemma keeps_catch: "keeps I m \<Longrightarrow> (\<And>e. keeps I (h e)) \<Longrightarrow> keeps I (catch m h)"
  unfolding keeps_def catch_def
  by (auto split: prod.splits sum.splits)

lemma keeps_settled: "keeps I m \<Longrightarrow> (\<And>k. I k \<Longrightarrow> inflight k = []) \<Longrightarrow> keeps I (settled m)"
  unfolding keeps_def settled_def
  by (auto split: prod.splits simp: settle_rest)

lemma keeps_await_do: "keeps I (await r) \<Longrightarrow> keeps I (await_do r)"
  unfolding await_do_def by (intro keeps_bind keeps_resolve)

lemmas upd_names = nbcCfg_def jupyterhubCfg_def segmentKeyCfg_def

lemma untouched_await:
  "\<not> writes nbcCfg r \<Longrightarrow> \<not> writes jupyterhubCfg r \<Longrightarrow> keeps (untouched cms) (await r)"
  by (simp add: keeps_def untouched_def await_inflight await_calls await_configmaps)

lemma untouched_tracking: "keeps (untouched cms) (update_tracking q)"
  unfolding update_tracking_def
  by (auto intro!: keeps_await_do keeps_resolve untouched_await simp: patchCM_def upd_names)

lemma keeps_enabled_strict: "keeps I (enabled_strict c)"
  unfolding enabled_strict_def
  by (auto intro!: keeps_resolve keeps_reject split: option.splits)

lemma untouched_rollout: "keeps (untouched cms) (update_rollout dashConfig q)"
  unfolding update_rollout_def
  by (auto intro!: keeps_bind keeps_enabled_strict keeps_await_do keeps_resolve keeps_reject
      untouched_await
      split: option.splits)

lemma keeps_update_catch: "keeps I (update_catch e)"
  unfolding update_catch_def
  by (auto intro!: keeps_resolve keeps_reject split: option.splits)

lemma untouched_update:
  assumes "\<not> Boolean_js (q_pvcSize q) \<or> \<not> Boolean_js (q_cullerTimeout q)"
  shows "keeps (untouched cms) (updateClusterSettings dashConfig q)"
proof -
  have "update_settings dashConfig q = resolve ()"
    using assms by (auto simp: update_settings_def)
  then show ?thesis
    unfolding updateClusterSettings_def
    by (auto intro!: keeps_settled keeps_catch keeps_bind keeps_resolve keeps_update_catch
        untouched_tracking untouched_rollout simp: untouched_def)
qed

subsection \<open>A request without the pair of settings\<close>

text \<open>
  C8. A request that does not supply both \<^verbatim>\<open>pvcSize\<close> and \<^verbatim>\<open>cullerTimeout\<close> (one of
  them is missing or empty) leaves the store of PVC size and timeout alone, in either
  mode and whatever the tracking parameter is: no request that
  \<^verbatim>\<open>updateClusterSettings\<close> sends patches, creates or deletes the culling ConfigMap or
  the legacy ConfigMap, and both are afterwards what they were before.
\<close>

theorem update_without_pair_untouched:
  assumes "\<not> Boolean_js (q_pvcSize q) \<or> \<not> Boolean_js (q_cullerTimeout q)"
  shows "list_all (\<lambda>r. \<not> writes nbcCfg r \<and> \<not> writes jupyterhubCfg r)
           (calls (snd (updateClusterSettings dashConfig q (cluster cms flt eg))))
       \<and> configmaps (snd (updateClusterSettings dashConfig q (cluster cms flt eg))) nbcCfg
           = cms nbcCfg
       \<and> configmaps (snd (updateClusterSettings dashConfig q (cluster cms flt eg))) jupyterhubCfg
           = cms jupyterhubCfg"
proof -
  have "untouched cms (cluster cms flt eg)"
    by (simp add: untouched_def cluster_def)
  with untouched_update [OF assms, of cms dashConfig]
  have "untouched cms (snd (updateClusterSettings dashConfig q (cluster cms flt eg)))"
    by (simp add: keeps_def)
  then show ?thesis by (simp add: untouched_def)
qed

theorem update_without_pair_untouched_witness:
  "\<not> Boolean_js (q_pvcSize
       \<lparr>q_userTrackingEnabled = Some ''true'', q_pvcSize = None, q_cullerTimeout = Some ''600''\<rparr>)
   \<and> list_all (\<lambda>r. \<not> writes nbcCfg r \<and> \<not> writes jupyterhubCfg r)
        (calls (snd (updateClusterSettings controller_mode
           \<lparr>q_userTrackingEnabled = Some ''true'', q_pvcSize = None, q_cullerTimeout = Some ''600''\<rparr>
           (cluster Map.empty no_fault False))))
   \<and> configmaps (snd (updateClusterSettings controller_mode
           \<lparr>q_userTrackingEnabled = Some ''true'', q_pvcSize = None, q_cullerTimeout = Some ''600''\<rparr>
           (cluster Map.empty no_fault False))) nbcCfg = None"
  using update_without_pair_untouched
    [of "\<lparr>q_userTrackingEnabled = Some ''true'', q_pvcSize = None, q_cullerTimeout = Some ''600''\<rparr>"
        controller_mode Map.empty no_fault False]
  by (simp add: Boolean_js_def)

subsection \<open>Creating the culling ConfigMap\<close>

lemma tracking_ok:
  assumes "q_userTrackingEnabled q = Some ''null'' \<or>
           (\<exists>cm. cms segmentKeyCfg = Some cm) \<and>
           flt (PatchConfigMap segmentKeyCfg [(''segmentKeyEnabled'', q_userTrackingEnabled q)]) = None"
  shows "\<exists>k1. update_tracking q (cluster cms flt eg) = (Inr (), k1) \<and> inflight k1 = [] \<and>
           fault k1 = flt \<and> eager k1 = eg \<and>
           configmaps k1 nbcCfg = cms nbcCfg \<and> configmaps k1 jupyterhubCfg = cms jupyterhubCfg"
  using assms
  by (auto simp: update_tracking_def await_do_def await_rest bind_def resolve_def cluster_def
        serve_def patchCM_def upd_names)

lemma culling_creates:
  assumes "inflight k = []" and "configmaps k nbcCfg = None"
    and "Number_js (q_cullerTimeout q) \<noteq> Whole DEFAULT_CULLER_TIMEOUT"
    and "fault k (PatchConfigMap nbcCfg
            [(''ENABLE_CULLING'', Some ''true''),
             (''CULL_IDLE_TIME'', Some (String_js (js_div (Number_js (q_cullerTimeout q)) 60)))]) = None"
    and "fault k (CreateConfigMap nbcCfg
            [(''ENABLE_CULLING'', ''true''),
             (''CULL_IDLE_TIME'', String_js (js_div (Number_js (q_cullerTimeout q)) 60)),
             (''IDLENESS_CHECK_PERIOD'', ''1'')]) = None"
  shows "update_culling q k =
    (Inr (), k\<lparr>calls := calls k @
        [PatchConfigMap nbcCfg
            [(''ENABLE_CULLING'', Some ''true''),
             (''CULL_IDLE_TIME'', Some (String_js (js_div (Number_js (q_cullerTimeout q)) 60)))],
         CreateConfigMap nbcCfg
            [(''ENABLE_CULLING'', ''true''),
             (''CULL_IDLE_TIME'', String_js (js_div (Number_js (q_cullerTimeout q)) 60)),
             (''IDLENESS_CHECK_PERIOD'', ''1'')]],
       configmaps := (configmaps k)(nbcCfg \<mapsto> Some (map_of
            [(''ENABLE_CULLING'', ''true''),
             (''CULL_IDLE_TIME'', String_js (js_div (Number_js (q_cullerTimeout q)) 60)),
             (''IDLENESS_CHECK_PERIOD'', ''1'')]))\<rparr>)"
proof -
  have n: "nbcCfg = ''notebook-controller-culler-config''" by (simp add: nbcCfg_def)
  show ?thesis
    using assms
    by (simp add: update_culling_def Let_def String_bool_def patchCM_def await_do_def await_rest
        catch_def bind_def resolve_def serve_def not_found_def DEFAULT_IDLENESS_CHECK_PERIOD_def
        n [symmetric])
qed

lemma culling_created_await: "\<not> writes nbcCfg r \<Longrightarrow> keeps (culling_created d) (await r)"
  by (simp add: keeps_def culling_created_def await_inflight await_calls await_configmaps)

lemma culling_created_rollout: "keeps (culling_created d) (update_rollout dashConfig q)"
  unfolding update_rollout_def
  by (auto intro!: keeps_bind keeps_enabled_strict keeps_await_do keeps_resolve keeps_reject
      culling_created_await split: option.splits)

text \<open>On the whole numbers up to \<open>2 ^ 53\<close>, the minutes that \<^verbatim>\<open>String(n / 60)\<close> prints: the
  quotient where 60 divides \<open>n\<close>, and the quotient with its one or two decimals where only
  3 does.\<close>

lemma minutes_whole:
  assumes "n \<le> max_exact" and "60 dvd n"
  shows "String_js (js_div (Whole n) 60) = dec_digits (n div 60)"
proof -
  have "n div 60 \<le> n" by (rule div_le_dividend)
  with assms(1) have "n div 60 \<le> max_exact" by (rule order_trans [rotated])
  then show ?thesis
    using assms by (simp add: js_div_def String_js_def)
qed

lemma minutes_fraction:
  assumes "n \<le> max_exact" and "3 dvd n" and "\<not> 60 dvd n" and "5 * n div 3 < max_decimal"
  shows "String_js (js_div (Whole n) 60) =
           dec_digits (n div 60) @ ''.'' @ fraction_digits (5 * n div 3 mod 100)"
proof -
  obtain k where n: "n = 3 * k" using assms(2) by (auto elim: dvdE)
  have k: "\<not> 20 dvd k" using assms(3) by (simp add: n)
  have five: "5 * n div 3 = 5 * k" by (simp add: n)
  have "100 * n = 60 * (5 * k)" by (simp add: n)
  then have dv: "60 dvd 100 * n" and h: "100 * n div 60 = 5 * k" by simp_all
  have whole: "5 * k div 100 = n div 60"
  proof -
    have "5 * k div (5 * 20) = k div 20" by (rule div_mult_mult1) simp
    moreover have "3 * k div (3 * 20) = k div 20" by (rule div_mult_mult1) simp
    ultimately show ?thesis by (simp add: n)
  qed
  have frac: "5 * k mod 100 \<noteq> 0"
    using k by presburger
  have sixty: "(60::nat) \<le> max_exact" by (simp add: max_exact_def)
  show ?thesis
    using assms(1,3,4) dv sixty frac
    by (simp add: js_div_def String_js_def h five whole)
qed

text \<open>
  C6, as the claim states it, fails in notebook-controller mode with a
  \<^verbatim>\<open>cullerTimeout\<close> of 600 and no culling ConfigMap. Without \<^verbatim>\<open>pvcSize\<close> the settings
  are skipped (line 57): the rollout is the only request sent. With the pair and a
  tracking flag \<^verbatim>\<open>'true'\<close> at a cluster that has no tracking ConfigMap, the tracking
  patch is answered 404 and the function ends there. With the pair and a patch of the
  culling ConfigMap answered 403, the inner handler drops the error (line 72) and creates
  nothing. In all three no culling ConfigMap exists afterwards.
\<close>

theorem culling_configmap_not_created:
  "enabled_optional controller_mode
   \<and> Number_js (Some ''600'') = Whole 600
   \<and> fst (updateClusterSettings controller_mode
        \<lparr>q_userTrackingEnabled = Some ''null'', q_pvcSize = None, q_cullerTimeout = Some ''600''\<rparr>
        (cluster Map.empty no_fault False)) = Inr (Result True None)
   \<and> calls (snd (updateClusterSettings controller_mode
        \<lparr>q_userTrackingEnabled = Some ''null'', q_pvcSize = None, q_cullerTimeout = Some ''600''\<rparr>
        (cluster Map.empty no_fault False))) = [RolloutDeployment ''notebook-controller-deployment'']
   \<and> configmaps (snd (updateClusterSettings controller_mode
        \<lparr>q_userTrackingEnabled = Some ''null'', q_pvcSize = None, q_cullerTimeout = Some ''600''\<rparr>
        (cluster Map.empty no_fault False))) nbcCfg = None
   \<and> fst (updateClusterSettings controller_mode
        \<lparr>q_userTrackingEnabled = Some ''true'', q_pvcSize = Some ''20'',
         q_cullerTimeout = Some ''600''\<rparr>
        (cluster Map.empty no_fault False)) = Inr No_result
   \<and> calls (snd (updateClusterSettings controller_mode
        \<lparr>q_userTrackingEnabled = Some ''true'', q_pvcSize = Some ''20'',
         q_cullerTimeout = Some ''600''\<rparr>
        (cluster Map.empty no_fault False)))
       = [PatchConfigMap segmentKeyCfg [(''segmentKeyEnabled'', Some ''true'')]]
   \<and> configmaps (snd (updateClusterSettings controller_mode
        \<lparr>q_userTrackingEnabled = Some ''true'', q_pvcSize = Some ''20'',
         q_cullerTimeout = Some ''600''\<rparr>
        (cluster Map.empty no_fault False))) nbcCfg = None
   \<and> fst (updateClusterSettings controller_mode
        \<lparr>q_userTrackingEnabled = Some ''null'', q_pvcSize = Some ''20'',
         q_cullerTimeout = Some ''600''\<rparr>
        (cluster Map.empty
          (no_fault (PatchConfigMap nbcCfg
              [(''ENABLE_CULLING'', Some ''true''), (''CULL_IDLE_TIME'', Some ''10'')]
            := Some (HttpError 403 ''HTTP request failed'')))
          False)) = Inr (Result True None)
   \<and> calls (snd (updateClusterSettings controller_mode
        \<lparr>q_userTrackingEnabled = Some ''null'', q_pvcSize = Some ''20'',
         q_cullerTimeout = Some ''600''\<rparr>
        (cluster Map.empty
          (no_fault (PatchConfigMap nbcCfg
              [(''ENABLE_CULLING'', Some ''true''), (''CULL_IDLE_TIME'', Some ''10'')]
            := Some (HttpError 403 ''HTTP request failed'')))
          False)))
       = [PatchConfigMap nbcCfg
            [(''ENABLE_CULLING'', Some ''true''), (''CULL_IDLE_TIME'', Some ''10'')],
          RolloutDeployment ''notebook-controller-deployment'']
   \<and> configmaps (snd (updateClusterSettings controller_mode
        \<lparr>q_userTrackingEnabled = Some ''null'', q_pvcSize = Some ''20'',
         q_cullerTimeout = Some ''600''\<rparr>
        (cluster Map.empty
          (no_fault (PatchConfigMap nbcCfg
              [(''ENABLE_CULLING'', Some ''true''), (''CULL_IDLE_TIME'', Some ''10'')]
            := Some (HttpError 403 ''HTTP request failed'')))
          False))) nbcCfg = None"
  by (simp add: upd_defs io_defs js_defs Let_def)

text \<open>
  C6, amended. In notebook-controller mode, take a request that supplies a non-empty
  \<^verbatim>\<open>pvcSize\<close> together with a \<^verbatim>\<open>cullerTimeout\<close> that is not the sentinel 31536000, at a
  cluster with no culling ConfigMap, where the tracking step does not fail (the
  parameter is \<^verbatim>\<open>'null'\<close>, or the tracking ConfigMap is there and its patch is served)
  and the cluster serves the patch and the creation of the culling ConfigMap. Then
  \<^verbatim>\<open>updateClusterSettings\<close> sends the creation, and afterwards the ConfigMap exists with
  \<^verbatim>\<open>ENABLE_CULLING\<close> \<^verbatim>\<open>'true'\<close>, \<^verbatim>\<open>IDLENESS_CHECK_PERIOD\<close> \<^verbatim>\<open>'1'\<close> and \<^verbatim>\<open>CULL_IDLE_TIME\<close>
  the string of \<^verbatim>\<open>cullerTimeout / 60\<close>: for a whole number \<open>n\<close> of seconds the decimal
  digits of \<open>n / 60\<close> where 60 divides \<open>n\<close> (\<^verbatim>\<open>'10'\<close> for 600), and the quotient with its
  decimals where only 3 does (\<^verbatim>\<open>'1.5'\<close> for 90).
\<close>

theorem update_creates_culling_configmap:
  assumes mode: "enabled_optional dashConfig"
    and pair: "Boolean_js (q_pvcSize q)" "Boolean_js (q_cullerTimeout q)"
    and timeout: "Number_js (q_cullerTimeout q) \<noteq> Whole DEFAULT_CULLER_TIMEOUT"
    and absent: "cms nbcCfg = None"
    and tracking: "q_userTrackingEnabled q = Some ''null'' \<or>
           (\<exists>cm. cms segmentKeyCfg = Some cm) \<and>
           flt (PatchConfigMap segmentKeyCfg [(''segmentKeyEnabled'', q_userTrackingEnabled q)]) = None"
    and patch: "flt (PatchConfigMap nbcCfg
            [(''ENABLE_CULLING'', Some ''true''),
             (''CULL_IDLE_TIME'', Some (String_js (js_div (Number_js (q_cullerTimeout q)) 60)))]) = None"
    and create: "flt (CreateConfigMap nbcCfg
            [(''ENABLE_CULLING'', ''true''),
             (''CULL_IDLE_TIME'', String_js (js_div (Number_js (q_cullerTimeout q)) 60)),
             (''IDLENESS_CHECK_PERIOD'', ''1'')]) = None"
  shows "CreateConfigMap nbcCfg
            [(''ENABLE_CULLING'', ''true''),
             (''CULL_IDLE_TIME'', String_js (js_div (Number_js (q_cullerTimeout q)) 60)),
             (''IDLENESS_CHECK_PERIOD'', ''1'')]
           \<in> set (calls (snd (updateClusterSettings dashConfig q (cluster cms flt eg))))
     \<and> (\<exists>d. configmaps (snd (updateClusterSettings dashConfig q (cluster cms flt eg))) nbcCfg
              = Some (Some d)
          \<and> d ''ENABLE_CULLING'' = Some ''true''
          \<and> d ''CULL_IDLE_TIME'' = Some (String_js (js_div (Number_js (q_cullerTimeout q)) 60))
          \<and> d ''IDLENESS_CHECK_PERIOD'' = Some ''1''
          \<and> (\<forall>n. Number_js (q_cullerTimeout q) = Whole n \<longrightarrow> n \<le> max_exact \<longrightarrow> 60 dvd n \<longrightarrow>
                 d ''CULL_IDLE_TIME'' = Some (dec_digits (n div 60)))
          \<and> (\<forall>n. Number_js (q_cullerTimeout q) = Whole n \<longrightarrow> n \<le> max_exact \<longrightarrow> 3 dvd n \<longrightarrow>
                 \<not> 60 dvd n \<longrightarrow> 5 * n div 3 < max_decimal \<longrightarrow>
                 d ''CULL_IDLE_TIME''
                   = Some (dec_digits (n div 60) @ ''.'' @ fraction_digits (5 * n div 3 mod 100))))"
proof -
  let ?d = "[(''ENABLE_CULLING'', ''true''),
             (''CULL_IDLE_TIME'', String_js (js_div (Number_js (q_cullerTimeout q)) 60)),
             (''IDLENESS_CHECK_PERIOD'', ''1'')]"
  let ?K = "cluster cms flt eg"
  let ?body = "bind (update_tracking q) (\<lambda>u.
        bind (update_settings dashConfig q) (\<lambda>u.
        bind (update_rollout dashConfig q) (\<lambda>u.
        resolve (Result True None))))"
  obtain k1 where k1: "update_tracking q ?K = (Inr (), k1)" "inflight k1 = []" "fault k1 = flt"
      "configmaps k1 nbcCfg = cms nbcCfg"
    using tracking_ok [of q cms flt eg] tracking by blast
  have settings: "update_settings dashConfig q = update_culling q"
    using mode pair by (simp add: update_settings_def)
  obtain k2 where k2: "update_culling q k1 = (Inr (), k2)" "culling_created ?d k2"
    using culling_creates [of k1 q] k1 absent timeout patch create
    by (simp add: culling_created_def)
  have "?body ?K = bind (update_rollout dashConfig q) (\<lambda>u. resolve (Result True None)) k2"
    by (simp add: bind_def k1(1) settings k2(1))
  moreover have "keeps (culling_created ?d)
      (bind (update_rollout dashConfig q) (\<lambda>u. resolve (Result True None)))"
    by (intro keeps_bind culling_created_rollout keeps_resolve)
  ultimately have body: "culling_created ?d (snd (?body ?K))"
    using k2(2) by (simp add: keeps_def)
  have "culling_created ?d (snd (catch ?body update_catch ?K))"
    using body keeps_update_catch [of "culling_created ?d"]
    by (auto simp: catch_def keeps_def split: prod.splits sum.splits)
  then have "culling_created ?d (snd (settled (catch ?body update_catch) ?K))"
    by (auto simp: settled_def culling_created_def settle_rest split: prod.splits)
  then have created: "CreateConfigMap nbcCfg ?d
        \<in> set (calls (snd (updateClusterSettings dashConfig q ?K)))"
    and stored: "configmaps (snd (updateClusterSettings dashConfig q ?K)) nbcCfg
        = Some (Some (map_of ?d))"
    by (simp_all add: updateClusterSettings_def culling_created_def)
  have "map_of ?d ''ENABLE_CULLING'' = Some ''true''"
    and "map_of ?d ''CULL_IDLE_TIME''
        = Some (String_js (js_div (Number_js (q_cullerTimeout q)) 60))"
    and "map_of ?d ''IDLENESS_CHECK_PERIOD'' = Some ''1''"
    by simp_all
  with created stored show ?thesis
    by (auto simp: minutes_whole minutes_fraction)
qed

theorem update_creates_culling_configmap_witness:
  "Boolean_js (Some ''20'') \<and> Boolean_js (Some ''600'')
   \<and> Number_js (Some ''600'') = Whole 600 \<and> Number_js (Some ''90'') = Whole 90
   \<and> CreateConfigMap nbcCfg
        [(''ENABLE_CULLING'', ''true''), (''CULL_IDLE_TIME'', ''10''),
         (''IDLENESS_CHECK_PERIOD'', ''1'')]
       \<in> set (calls (snd (updateClusterSettings controller_mode
            \<lparr>q_userTrackingEnabled = Some ''null'', q_pvcSize = Some ''20'',
             q_cullerTimeout = Some ''600''\<rparr>
            (cluster Map.empty no_fault False))))
   \<and> (\<exists>d. configmaps (snd (updateClusterSettings controller_mode
            \<lparr>q_userTrackingEnabled = Some ''null'', q_pvcSize = Some ''20'',
             q_cullerTimeout = Some ''600''\<rparr>
            (cluster Map.empty no_fault False))) nbcCfg = Some (Some d)
        \<and> d ''ENABLE_CULLING'' = Some ''true''
        \<and> d ''CULL_IDLE_TIME'' = Some ''10''
        \<and> d ''IDLENESS_CHECK_PERIOD'' = Some ''1'')
   \<and> (\<exists>d. configmaps (snd (updateClusterSettings controller_mode
            \<lparr>q_userTrackingEnabled = Some ''null'', q_pvcSize = Some ''20'',
             q_cullerTimeout = Some ''90''\<rparr>
            (cluster Map.empty no_fault False))) nbcCfg = Some (Some d)
        \<and> d ''ENABLE_CULLING'' = Some ''true''
        \<and> d ''CULL_IDLE_TIME'' = Some ''1.5''
        \<and> d ''IDLENESS_CHECK_PERIOD'' = Some ''1'')"
proof -
  have nums: "Boolean_js (Some ''20'')" "Boolean_js (Some ''600'')" "Boolean_js (Some ''90'')"
      "Number_js (Some ''600'') = Whole 600" "Number_js (Some ''90'') = Whole 90"
      "String_js (js_div (Whole 600) 60) = ''10''" "String_js (js_div (Whole 90) 60) = ''1.5''"
    by (simp_all add: js_defs)
  have mode: "enabled_optional controller_mode"
    by (simp add: controller_mode_def enabled_optional_def)
  note ten = update_creates_culling_configmap
    [of controller_mode
        "\<lparr>q_userTrackingEnabled = Some ''null'', q_pvcSize = Some ''20'',
          q_cullerTimeout = Some ''600''\<rparr>"
        Map.empty no_fault False]
  note half = update_creates_culling_configmap
    [of controller_mode
        "\<lparr>q_userTrackingEnabled = Some ''null'', q_pvcSize = Some ''20'',
          q_cullerTimeout = Some ''90''\<rparr>"
        Map.empty no_fault False]
  have "CreateConfigMap nbcCfg
        [(''ENABLE_CULLING'', ''true''), (''CULL_IDLE_TIME'', ''10''),
         (''IDLENESS_CHECK_PERIOD'', ''1'')]
       \<in> set (calls (snd (updateClusterSettings controller_mode
            \<lparr>q_userTrackingEnabled = Some ''null'', q_pvcSize = Some ''20'',
             q_cullerTimeout = Some ''600''\<rparr>
            (cluster Map.empty no_fault False))))
     \<and> (\<exists>d. configmaps (snd (updateClusterSettings controller_mode
            \<lparr>q_userTrackingEnabled = Some ''null'', q_pvcSize = Some ''20'',
             q_cullerTimeout = Some ''600''\<rparr>
            (cluster Map.empty no_fault False))) nbcCfg = Some (Some d)
        \<and> d ''ENABLE_CULLING'' = Some ''true''
        \<and> d ''CULL_IDLE_TIME'' = Some ''10''
        \<and> d ''IDLENESS_CHECK_PERIOD'' = Some ''1'')"
    using ten mode nums
    by (fastforce simp: no_fault_def DEFAULT_CULLER_TIMEOUT_def)
  moreover have "\<exists>d. configmaps (snd (updateClusterSettings controller_mode
            \<lparr>q_userTrackingEnabled = Some ''null'', q_pvcSize = Some ''20'',
             q_cullerTimeout = Some ''90''\<rparr>
            (cluster Map.empty no_fault False))) nbcCfg = Some (Some d)
        \<and> d ''ENABLE_CULLING'' = Some ''true''
        \<and> d ''CULL_IDLE_TIME'' = Some ''1.5''
        \<and> d ''IDLENESS_CHECK_PERIOD'' = Some ''1''"
    using half mode nums
    by (fastforce simp: no_fault_def DEFAULT_CULLER_TIMEOUT_def)
  ultimately show ?thesis
    using nums by blast
qed

subsection \<open>The tracking flag\<close>

lemma foldl_serve_calls: "calls (foldl (\<lambda>k' r. snd (serve r k')) k rs) = calls k"
  by (induction rs arbitrary: k) simp_all

lemma foldl_serve_inflight: "inflight (foldl (\<lambda>k' r. snd (serve r k')) k rs) = inflight k"
  by (induction rs arbitrary: k) simp_all

lemma foldl_serve_configmaps:
  "list_all (\<lambda>r. \<not> writes n r) rs \<Longrightarrow>
   configmaps (foldl (\<lambda>k' r. snd (serve r k')) k rs) n = configmaps k n"
  by (induction rs arbitrary: k) (simp_all add: serve_configmaps)

lemma settle_calls [simp]: "calls (settle k) = calls k"
  by (simp add: settle_def foldl_serve_calls)

lemma settle_inflight [simp]: "inflight (settle k) = []"
  by (simp add: settle_def foldl_serve_inflight)

lemma settle_configmaps:
  "list_all (\<lambda>r. \<not> writes n r) (inflight k) \<Longrightarrow> configmaps (settle k) n = configmaps k n"
  by (simp add: settle_def foldl_serve_configmaps)

lemma await_calls_any: "calls (snd (await r k)) = calls k @ [r]"
  by (simp add: await_def Let_def)

lemma snd_await_do: "snd (await_do r k) = snd (await r k)"
  by (simp add: await_do_def bind_def resolve_def split: prod.splits sum.splits)

lemma starts_await: "keeps (starts r0) (await r)"
  by (auto simp: keeps_def starts_def await_calls_any)

lemma starts_no_await: "keeps (starts r0) (no_await r)"
  by (auto simp: keeps_def starts_def no_await_def)

lemma starts_settle: "starts r0 k \<Longrightarrow> starts r0 (settle k)"
  by (simp add: starts_def)

lemma frame_settle: "frame n P k \<Longrightarrow> frame n P (settle k)"
  by (simp add: frame_def settle_configmaps)

lemma frame_await: "\<not> writes n r \<Longrightarrow> keeps (frame n P) (await r)"
  by (auto simp: keeps_def frame_def await_def Let_def serve_configmaps settle_configmaps)

lemma frame_no_await: "\<not> writes n r \<Longrightarrow> keeps (frame n P) (no_await r)"
  by (auto simp: keeps_def frame_def no_await_def)

lemma settings_keeps:
  assumes "\<And>r. \<not> writes segmentKeyCfg r \<Longrightarrow> keeps I (await r)"
    and "\<And>r. \<not> writes segmentKeyCfg r \<Longrightarrow> keeps I (no_await r)"
  shows "keeps I (update_settings dashConfig q)"
  unfolding update_settings_def update_culling_def update_jupyterhub_def Let_def patchCM_def
  by (auto intro!: keeps_catch keeps_await_do keeps_resolve assms simp: upd_names)

lemma rollout_keeps:
  assumes "\<And>r. \<not> writes n r \<Longrightarrow> keeps I (await r)"
  shows "keeps I (update_rollout dashConfig q)"
  unfolding update_rollout_def
  by (auto intro!: keeps_bind keeps_enabled_strict keeps_await_do keeps_resolve keeps_reject assms
      split: option.splits)

lemma after_tracking:
  assumes aw: "\<And>r. \<not> writes segmentKeyCfg r \<Longrightarrow> keeps I (await r)"
    and na: "\<And>r. \<not> writes segmentKeyCfg r \<Longrightarrow> keeps I (no_await r)"
    and st: "\<And>k. I k \<Longrightarrow> I (settle k)"
    and tr: "I (snd (update_tracking q k))"
  shows "I (snd (updateClusterSettings dashConfig q k))"
proof -
  let ?rest = "\<lambda>u::unit. bind (update_settings dashConfig q) (\<lambda>u.
        bind (update_rollout dashConfig q) (\<lambda>u. resolve (Result True None)))"
  have "keeps I (?rest u)" for u
    by (intro keeps_bind settings_keeps rollout_keeps keeps_resolve aw na)
  then have "I (snd (bind (update_tracking q) ?rest k))"
    using tr by (auto simp: bind_def keeps_def split: prod.splits sum.splits)
  then have "I (snd (catch (bind (update_tracking q) ?rest) update_catch k))"
    using keeps_update_catch [of I]
    by (auto simp: catch_def keeps_def split: prod.splits sum.splits)
  then show ?thesis
    using st by (auto simp: updateClusterSettings_def settled_def split: prod.splits)
qed

text \<open>
  C5, as the claim states it, fails where the parameter is omitted: the guard compares
  the parameter with the string \<^verbatim>\<open>'null'\<close> only, \<^verbatim>\<open>undefined\<close> is not that
  string, and a patch of the tracking ConfigMap is sent (with an undefined value).
\<close>

theorem omitted_tracking_flag_is_patched:
  "q_userTrackingEnabled \<lparr>q_userTrackingEnabled = None, q_pvcSize = None, q_cullerTimeout = None\<rparr>
     = None
   \<and> calls (snd (updateClusterSettings controller_mode
        \<lparr>q_userTrackingEnabled = None, q_pvcSize = None, q_cullerTimeout = None\<rparr>
        (cluster [segmentKeyCfg \<mapsto> Some [''segmentKeyEnabled'' \<mapsto> ''true'']] no_fault False))) =
       [PatchConfigMap segmentKeyCfg [(''segmentKeyEnabled'', None)],
        RolloutDeployment ''notebook-controller-deployment'']
   \<and> writes segmentKeyCfg (PatchConfigMap segmentKeyCfg [(''segmentKeyEnabled'', None)])"
  by (simp add: upd_defs io_defs js_defs)

text \<open>
  C5, amended. For a request that supplies \<^verbatim>\<open>userTrackingEnabled\<close>, in either mode and
  at any cluster: when the value is not \<^verbatim>\<open>'null'\<close>, the first request
  \<^verbatim>\<open>updateClusterSettings\<close> sends is the patch of the tracking ConfigMap that sets
  \<^verbatim>\<open>segmentKeyEnabled\<close> to the value; when the value is \<^verbatim>\<open>'null'\<close>, no request it
  sends writes the tracking ConfigMap, which is afterwards what it was before.
\<close>

theorem update_tracking_flag:
  assumes "q_userTrackingEnabled q = Some v"
  shows "(v \<noteq> ''null'' \<longrightarrow>
            (\<exists>rest. calls (snd (updateClusterSettings dashConfig q (cluster cms flt eg)))
               = PatchConfigMap segmentKeyCfg [(''segmentKeyEnabled'', Some v)] # rest))
       \<and> (v = ''null'' \<longrightarrow>
            list_all (\<lambda>r. \<not> writes segmentKeyCfg r)
              (calls (snd (updateClusterSettings dashConfig q (cluster cms flt eg))))
          \<and> configmaps (snd (updateClusterSettings dashConfig q (cluster cms flt eg))) segmentKeyCfg
              = cms segmentKeyCfg)"
proof (intro conjI impI)
  assume v: "v \<noteq> ''null''"
  let ?r0 = "PatchConfigMap segmentKeyCfg [(''segmentKeyEnabled'', Some v)]"
  have "update_tracking q = await_do ?r0"
    using assms v by (simp add: update_tracking_def patchCM_def)
  then have "starts ?r0 (snd (update_tracking q (cluster cms flt eg)))"
    by (simp add: snd_await_do starts_def await_calls_any cluster_def)
  then have "starts ?r0 (snd (updateClusterSettings dashConfig q (cluster cms flt eg)))"
    using after_tracking [where I = "starts ?r0", OF starts_await starts_no_await starts_settle]
    by blast
  then show "\<exists>rest. calls (snd (updateClusterSettings dashConfig q (cluster cms flt eg)))
      = ?r0 # rest"
    by (simp add: starts_def)
next
  assume v: "v = ''null''"
  let ?I = "frame segmentKeyCfg (\<lambda>c. c = cms segmentKeyCfg)"
  have "?I (snd (update_tracking q (cluster cms flt eg)))"
    using assms v by (simp add: update_tracking_def resolve_def frame_def cluster_def)
  then have "?I (snd (updateClusterSettings dashConfig q (cluster cms flt eg)))"
    using after_tracking [where I = ?I, OF frame_await frame_no_await frame_settle]
    by blast
  then show "list_all (\<lambda>r. \<not> writes segmentKeyCfg r)
        (calls (snd (updateClusterSettings dashConfig q (cluster cms flt eg))))"
    and "configmaps (snd (updateClusterSettings dashConfig q (cluster cms flt eg))) segmentKeyCfg
          = cms segmentKeyCfg"
    by (simp_all add: frame_def)
qed


theorem update_tracking_flag_witness:
  "(\<exists>rest. calls (snd (updateClusterSettings controller_mode
        \<lparr>q_userTrackingEnabled = Some ''true'', q_pvcSize = None, q_cullerTimeout = None\<rparr>
        (cluster Map.empty no_fault False)))
      = PatchConfigMap segmentKeyCfg [(''segmentKeyEnabled'', Some ''true'')] # rest)
   \<and> list_all (\<lambda>r. \<not> writes segmentKeyCfg r)
        (calls (snd (updateClusterSettings controller_mode
          \<lparr>q_userTrackingEnabled = Some ''null'', q_pvcSize = None, q_cullerTimeout = None\<rparr>
          (cluster Map.empty no_fault False))))"
  using update_tracking_flag
    [of "\<lparr>q_userTrackingEnabled = Some ''true'', q_pvcSize = None, q_cullerTimeout = None\<rparr>"
        "''true''" controller_mode Map.empty no_fault False]
    update_tracking_flag
    [of "\<lparr>q_userTrackingEnabled = Some ''null'', q_pvcSize = None, q_cullerTimeout = None\<rparr>"
        "''null''" controller_mode Map.empty no_fault False]
  by simp

subsection \<open>What getClusterSettings returns\<close>

lemma serve_read: "serve (ReadConfigMap n) k = (fst (serve (ReadConfigMap n) k), k)"
  by (simp add: serve_def split: option.splits)

lemma serve_read_calls [simp]:
  "fst (serve (ReadConfigMap n) (k\<lparr>calls := c\<rparr>)) = fst (serve (ReadConfigMap n) k)"
  by (simp add: serve_def split: option.splits)

lemma await_read:
  "inflight k = [] \<Longrightarrow>
   await (ReadConfigMap n) k =
     (fst (serve (ReadConfigMap n) k), k\<lparr>calls := calls k @ [ReadConfigMap n]\<rparr>)"
  using serve_read [of n "k\<lparr>calls := calls k @ [ReadConfigMap n]\<rparr>"]
  by (simp add: await_rest)

lemma read_tracking_outcome:
  assumes "inflight k = []"
  shows "read_tracking cs k =
    (Inr (case fst (serve (ReadConfigMap segmentKeyCfg) k) of
            Inl e \<Rightarrow> cs
          | Inr None \<Rightarrow> cs
          | Inr (Some d) \<Rightarrow> cs\<lparr>userTrackingEnabled := Some (d ''segmentKeyEnabled'' = Some ''true'')\<rparr>),
     k\<lparr>calls := calls k @ [ReadConfigMap segmentKeyCfg]\<rparr>)"
  by (simp add: read_tracking_def catch_def bind_def resolve_def reject_def await_read [OF assms]
      split: sum.splits option.splits)

lemma read_culling_outcome:
  assumes "inflight k = []"
  shows "read_culling cs k =
    (case fst (serve (ReadConfigMap nbcCfg) k) of
       Inl e \<Rightarrow>
         if statusCode e = Some 404
         then Inr (cs\<lparr>pvcSize := Whole 20, cullerTimeout := Whole DEFAULT_CULLER_TIMEOUT\<rparr>)
         else Inl e
     | Inr None \<Rightarrow> Inl (undefined_read ''CULL_IDLE_TIME'')
     | Inr (Some d) \<Rightarrow>
         Inr (if Boolean_js (d ''ENABLE_CULLING'')
              then cs\<lparr>pvcSize := Whole 20,
                      cullerTimeout := js_times (Number_js (d ''CULL_IDLE_TIME'')) 60\<rparr>
              else cs\<lparr>pvcSize := Whole 20, cullerTimeout := Whole DEFAULT_CULLER_TIMEOUT\<rparr>),
     k\<lparr>calls := calls k @ [ReadConfigMap nbcCfg]\<rparr>)"
  by (simp add: read_culling_def Let_def catch_def bind_def resolve_def reject_def
      await_read [OF assms] undefined_read_def split: sum.splits option.splits)

lemma read_jupyterhub_outcome:
  assumes "inflight k = []"
  shows "read_jupyterhub cs k =
    (Inr (case fst (serve (ReadConfigMap jupyterhubCfg) k) of
            Inl e \<Rightarrow> cs
          | Inr None \<Rightarrow> cs
          | Inr (Some d) \<Rightarrow>
              (case d ''singleuser_pvc_size'' of
                 None \<Rightarrow> cs
               | Some stored \<Rightarrow>
                   cs\<lparr>pvcSize := Number_js (Some (replace_js ''Gi'' [] stored)),
                      cullerTimeout := Number_js (d ''culler_timeout'')\<rparr>)),
     k\<lparr>calls := calls k @ [ReadConfigMap jupyterhubCfg]\<rparr>)"
  by (simp add: read_jupyterhub_def readJupyterhubCfg_def catch_def bind_def resolve_def reject_def
      await_read [OF assms] split: sum.splits option.splits)

lemma getClusterSettings_outcome:
  assumes "inflight k = []"
  shows "fst (getClusterSettings dashConfig k) =
     fst ((if enabled_optional dashConfig then read_culling else read_jupyterhub)
       (case fst (serve (ReadConfigMap segmentKeyCfg) k) of
            Inl e \<Rightarrow> DEFAULT_CLUSTER_SETTINGS
          | Inr None \<Rightarrow> DEFAULT_CLUSTER_SETTINGS
          | Inr (Some d) \<Rightarrow> DEFAULT_CLUSTER_SETTINGS
              \<lparr>userTrackingEnabled := Some (d ''segmentKeyEnabled'' = Some ''true'')\<rparr>)
       (k\<lparr>calls := calls k @ [ReadConfigMap segmentKeyCfg]\<rparr>))"
  by (simp add: getClusterSettings_def bind_def read_tracking_outcome [OF assms])

text \<open>
  C10. At every cluster at rest, \<^verbatim>\<open>getClusterSettings\<close> resolves to a
  \<^verbatim>\<open>ClusterSettings\<close> record or rejects; it has no third outcome, and no string among
  its results.
  It rejects only in notebook-controller mode, with an error that is not a 404 and that
  the read of the culling ConfigMap gave (the API's error, or the \<^verbatim>\<open>TypeError\<close> of
  reading a key of a ConfigMap that has no data); and every such error of the API makes
  it reject.
  Where the read of the tracking ConfigMap fails, the record's \<^verbatim>\<open>userTrackingEnabled\<close>
  is null. In legacy mode it always resolves, and where the read of the legacy
  ConfigMap fails, \<^verbatim>\<open>pvcSize\<close> and \<^verbatim>\<open>cullerTimeout\<close> are the defaults 20 and 31536000.
\<close>

theorem getClusterSettings_outcomes:
  "(\<forall>e. fst (getClusterSettings dashConfig (cluster cms flt eg)) = Inl e \<longrightarrow>
        enabled_optional dashConfig \<and> statusCode e \<noteq> Some 404 \<and>
        (fst (serve (ReadConfigMap nbcCfg) (cluster cms flt eg)) = Inl e \<or>
         fst (serve (ReadConfigMap nbcCfg) (cluster cms flt eg)) = Inr None \<and>
         e = undefined_read ''CULL_IDLE_TIME''))
   \<and> (\<forall>cs e. fst (getClusterSettings dashConfig (cluster cms flt eg)) = Inr cs \<longrightarrow>
        fst (serve (ReadConfigMap segmentKeyCfg) (cluster cms flt eg)) = Inl e \<longrightarrow>
        userTrackingEnabled cs = None)
   \<and> (\<forall>e. \<not> enabled_optional dashConfig \<longrightarrow>
        fst (serve (ReadConfigMap jupyterhubCfg) (cluster cms flt eg)) = Inl e \<longrightarrow>
        (\<exists>cs. fst (getClusterSettings dashConfig (cluster cms flt eg)) = Inr cs \<and>
           pvcSize cs = Whole DEFAULT_PVC_SIZE \<and> cullerTimeout cs = Whole DEFAULT_CULLER_TIMEOUT))
   \<and> (\<not> enabled_optional dashConfig \<longrightarrow>
        (\<exists>cs. fst (getClusterSettings dashConfig (cluster cms flt eg)) = Inr cs))
   \<and> (\<forall>e. enabled_optional dashConfig \<longrightarrow>
        fst (serve (ReadConfigMap nbcCfg) (cluster cms flt eg)) = Inl e \<longrightarrow>
        statusCode e \<noteq> Some 404 \<longrightarrow>
        fst (getClusterSettings dashConfig (cluster cms flt eg)) = Inl e)"
proof -
  let ?K = "cluster cms flt eg"
  have rest: "inflight ?K = []" by (simp add: cluster_def)
  have rest': "inflight (?K\<lparr>calls := calls ?K @ [ReadConfigMap segmentKeyCfg]\<rparr>) = []"
    by (simp add: cluster_def)
  note out = getClusterSettings_outcome [OF rest] read_culling_outcome [OF rest']
    read_jupyterhub_outcome [OF rest']
  show ?thesis
    by (auto simp: out DEFAULT_CLUSTER_SETTINGS_def undefined_read_def
        split: sum.splits option.splits if_splits)
qed


theorem getClusterSettings_outcomes_witness:
  "fst (getClusterSettings controller_mode
      (cluster Map.empty
        (no_fault (ReadConfigMap nbcCfg := Some (HttpError 500 ''HTTP request failed''))) False))
     = Inl (HttpError 500 ''HTTP request failed'')
   \<and> (\<exists>cs. fst (getClusterSettings legacy_mode (cluster Map.empty no_fault False)) = Inr cs
         \<and> pvcSize cs = Whole DEFAULT_PVC_SIZE \<and> cullerTimeout cs = Whole DEFAULT_CULLER_TIMEOUT
         \<and> userTrackingEnabled cs = None)"
proof -
  let ?flt = "no_fault (ReadConfigMap nbcCfg := Some (HttpError 500 ''HTTP request failed''))"
  note controller = getClusterSettings_outcomes [of controller_mode Map.empty ?flt False]
  note legacy = getClusterSettings_outcomes [of legacy_mode Map.empty no_fault False]
  have mode: "enabled_optional controller_mode"
    by (simp add: controller_mode_def enabled_optional_def)
  have failing: "fst (serve (ReadConfigMap nbcCfg) (cluster Map.empty ?flt False))
      = Inl (HttpError 500 ''HTTP request failed'')"
    by (simp add: serve_def cluster_def)
  have status: "statusCode (HttpError 500 ''HTTP request failed'') \<noteq> Some 404"
    by simp
  have first: "fst (getClusterSettings controller_mode (cluster Map.empty ?flt False))
      = Inl (HttpError 500 ''HTTP request failed'')"
    by (rule controller [THEN conjunct2, THEN conjunct2, THEN conjunct2, THEN conjunct2,
          rule_format, OF mode failing status])
  have mode': "\<not> enabled_optional legacy_mode"
    by (simp add: legacy_mode_def enabled_optional_def)
  have absent: "fst (serve (ReadConfigMap jupyterhubCfg) (cluster Map.empty no_fault False))
        = Inl not_found"
    by (simp add: serve_def cluster_def no_fault_def)
  have absent': "fst (serve (ReadConfigMap segmentKeyCfg) (cluster Map.empty no_fault False))
        = Inl not_found"
    by (simp add: serve_def cluster_def no_fault_def)
  obtain cs where
    cs: "fst (getClusterSettings legacy_mode (cluster Map.empty no_fault False)) = Inr cs"
      "pvcSize cs = Whole DEFAULT_PVC_SIZE" "cullerTimeout cs = Whole DEFAULT_CULLER_TIMEOUT"
    using legacy [THEN conjunct2, THEN conjunct2, THEN conjunct1, rule_format, OF mode' absent]
    by (elim exE conjE)
  have "userTrackingEnabled cs = None"
    by (rule legacy [THEN conjunct2, THEN conjunct1, rule_format, OF cs(1) absent'])
  with cs have "\<exists>cs. fst (getClusterSettings legacy_mode (cluster Map.empty no_fault False)) = Inr cs
         \<and> pvcSize cs = Whole DEFAULT_PVC_SIZE \<and> cullerTimeout cs = Whole DEFAULT_CULLER_TIMEOUT
         \<and> userTrackingEnabled cs = None"
    by (intro exI [of _ cs] conjI)
  with first show ?thesis by (rule conjI)
qed

subsection \<open>Writing and reading back in legacy mode\<close>

lemma settle_fault [simp]: "fault (settle k) = fault k"
proof -
  have "fault (foldl (\<lambda>k' r. snd (serve r k')) k0 rs) = fault k0" for k0 rs
    by (induction rs arbitrary: k0) simp_all
  then show ?thesis by (simp add: settle_def)
qed








subsection \<open>Groups\<close>

text \<open>
  C9. For a group name with no group resource in the cluster, \<^verbatim>\<open>getGroup\<close> fails with
  a \<^verbatim>\<open>MissingGroupError\<close> that names the group, and so with no plain \<^verbatim>\<open>Error\<close> (the
  kind \<^verbatim>\<open>getAllGroups\<close> fails with).
\<close>

theorem getGroup_missing:
  assumes "map_of (groups customObjectsApi) adminGroup = None"
  shows "getGroup customObjectsApi adminGroup =
           Inl (MissingGroupError
             (''Failed to retrieve Group '' @ adminGroup @ '', might not exist.''))
       \<and> (\<forall>m. getGroup customObjectsApi adminGroup \<noteq> Inl (Error m))"
  using assms by (simp add: getGroup_def getClusterCustomObject_def split: option.splits)

theorem getGroup_missing_witness:
  "map_of (groups \<lparr>groups = [(''admins'', Some [''alice''])], group_fault = (\<lambda>n. None),
                   list_fault = None\<rparr>) ''users'' = None
   \<and> getGroup \<lparr>groups = [(''admins'', Some [''alice''])], group_fault = (\<lambda>n. None),
               list_fault = None\<rparr> ''users''
       = Inl (MissingGroupError ''Failed to retrieve Group users, might not exist.'')
   \<and> getGroup \<lparr>groups = [(''admins'', Some [''alice''])], group_fault = (\<lambda>n. None),
               list_fault = None\<rparr> ''admins'' = Inr (Some [''alice''])"
  using getGroup_missing
    [of "\<lparr>groups = [(''admins'', Some [''alice''])], group_fault = (\<lambda>n. None),
          list_fault = None\<rparr>" "''users''"]
  by (simp add: getGroup_def getClusterCustomObject_def)

subsection \<open>Where the handlers leave their contract\<close>

lemma update_catch_outcome:
  "update_catch e =
     (if response_statusCode e \<noteq> Some 404 then reject (undefined_read ''body'')
      else resolve No_result)"
  by (simp add: update_catch_def)

lemma bind_outcome:
  assumes "\<And>x k'. P (fst (f x k'))" and "\<And>e. P (Inl e)"
  shows "P (fst (bind m f k))"
  by (simp add: bind_def assms split: prod.splits sum.splits)

lemma fst_settled: "fst (settled m k) = fst (m k)"
  by (simp add: settled_def split: prod.splits)

lemma enabled_optional_strict:
  "enabled_optional dashConfig \<Longrightarrow> enabled_strict dashConfig = resolve True"
  by (auto simp: enabled_optional_def enabled_strict_def split: option.splits)

lemma legacy_strict:
  "spec dashConfig = Some s \<Longrightarrow> notebookController s = Some nc \<Longrightarrow> \<not> enabled nc \<Longrightarrow>
   \<not> enabled_optional dashConfig \<and> enabled_strict dashConfig = resolve False"
  by (simp add: enabled_optional_def enabled_strict_def)

text \<open>No path of \<^verbatim>\<open>updateClusterSettings\<close> resolves to \<^verbatim>\<open>{success: false, ...}\<close>: the
  handler that would return it reads \<^verbatim>\<open>e.respose.body\<close> first, which throws.\<close>

lemma update_never_reports_failure:
  "fst (updateClusterSettings dashConfig q k) \<noteq> Inr (Result False err)"
proof -
  let ?body = "bind (update_tracking q) (\<lambda>u.
        bind (update_settings dashConfig q) (\<lambda>u.
        bind (update_rollout dashConfig q) (\<lambda>u.
        resolve (Result True None))))"
  let ?P = "\<lambda>r. r \<noteq> Inr (Result False err)"
  have body: "fst (?body k) \<noteq> Inr (Result False err)"
    apply (rule bind_outcome [where P = ?P])
     apply (rule bind_outcome [where P = ?P])
      apply (rule bind_outcome [where P = ?P])
       apply (simp_all add: resolve_def)
    done
  have handler: "fst (update_catch e k') \<noteq> Inr (Result False err)" for e k'
    by (simp add: update_catch_outcome resolve_def reject_def)
  have "fst (catch ?body update_catch k) \<noteq> Inr (Result False err)"
    using body handler by (auto simp: catch_def split: prod.splits sum.splits)
  then show ?thesis
    by (simp add: updateClusterSettings_def fst_settled)
qed

text \<open>Disabling culling in notebook-controller mode, tracking left alone: with the
  culling ConfigMap absent the function ends without a value after the deletion; with
  the ConfigMap present it deletes it, rolls out the controller deployment and resolves
  to \<^verbatim>\<open>{success: true, error: null}\<close>.\<close>

lemma disable_absent:
  assumes "enabled_optional dashConfig"
    and "Boolean_js (q_pvcSize q)" and "Boolean_js (q_cullerTimeout q)"
    and "Number_js (q_cullerTimeout q) = Whole DEFAULT_CULLER_TIMEOUT"
    and "q_userTrackingEnabled q = Some ''null''"
    and "cms nbcCfg = None"
    and "flt (DeleteConfigMap nbcCfg) = None"
  shows "updateClusterSettings dashConfig q (cluster cms flt eg) =
    (Inr No_result, (cluster cms flt eg)\<lparr>calls := [DeleteConfigMap nbcCfg]\<rparr>)"
  using assms
  by (simp add: updateClusterSettings_def update_tracking_def update_settings_def
      update_culling_def update_catch_outcome settled_def catch_def bind_def resolve_def
      reject_def await_do_def await_def serve_def settle_def cluster_def not_found_def Let_def)

lemma disable_present:
  assumes "enabled_optional dashConfig"
    and "Boolean_js (q_pvcSize q)" and "Boolean_js (q_cullerTimeout q)"
    and "Number_js (q_cullerTimeout q) = Whole DEFAULT_CULLER_TIMEOUT"
    and "q_userTrackingEnabled q = Some ''null''"
    and "cms nbcCfg = Some cm"
    and "flt (DeleteConfigMap nbcCfg) = None"
    and "flt (RolloutDeployment ''notebook-controller-deployment'') = None"
  shows "updateClusterSettings dashConfig q (cluster cms flt eg) =
    (Inr (Result True None),
     (cluster cms flt eg)\<lparr>configmaps := cms(nbcCfg := None),
        calls := [DeleteConfigMap nbcCfg, RolloutDeployment ''notebook-controller-deployment'']\<rparr>)"
  using assms
  by (simp add: updateClusterSettings_def update_tracking_def update_settings_def
      update_culling_def update_rollout_def enabled_optional_strict
      update_catch_outcome settled_def catch_def bind_def resolve_def
      reject_def await_do_def await_def serve_def settle_def cluster_def not_found_def Let_def)

text \<open>Every non-empty \<^verbatim>\<open>ENABLE_CULLING\<close> makes \<^verbatim>\<open>getClusterSettings\<close> convert the idle
  time, whatever the flag says.\<close>

lemma enabled_culling_flag:
  assumes "enabled_optional dashConfig"
    and "flt (ReadConfigMap nbcCfg) = None"
    and "cms nbcCfg = Some (Some d)"
    and "d ''ENABLE_CULLING'' = Some flag" and "flag \<noteq> []"
  shows "\<exists>cs. fst (getClusterSettings dashConfig (cluster cms flt eg)) = Inr cs \<and>
           cullerTimeout cs = js_times (Number_js (d ''CULL_IDLE_TIME'')) 60"
proof -
  let ?K = "cluster cms flt eg"
  have rest: "inflight ?K = []" by (simp add: cluster_def)
  have rest': "inflight (?K\<lparr>calls := calls ?K @ [ReadConfigMap segmentKeyCfg]\<rparr>) = []"
    by (simp add: cluster_def)
  have "fst (serve (ReadConfigMap nbcCfg) ?K) = Inr (Some d)"
    using assms(2,3) by (simp add: serve_def cluster_def)
  then show ?thesis
    using assms(1,4,5)
    by (simp add: getClusterSettings_outcome [OF rest] read_culling_outcome [OF rest']
        Boolean_js_def)
qed

text \<open>A change of the timeout alone in legacy mode. When the read is served before the
  patch, the function rolls out the culler and nothing else; when the patch is served
  first, it does not roll out the culler.\<close>

lemma legacy_read_before_patch:
  assumes mode: "spec dashConfig = Some s" "notebookController s = Some nc" "\<not> enabled nc"
    and "q_userTrackingEnabled q = Some ''null''"
    and "q_pvcSize q = Some p" "p \<noteq> []" and "q_cullerTimeout q = Some t" "t \<noteq> []"
    and "cms jupyterhubCfg = Some (Some d)"
    and "d ''singleuser_pvc_size'' = Some stored" and "replace_js ''Gi'' [] stored = p"
    and "d ''culler_timeout'' \<noteq> Some t"
    and "flt (PatchConfigMap jupyterhubCfg
           [(''singleuser_pvc_size'', Some (p @ ''Gi'')), (''culler_timeout'', Some t)]) = None"
    and "flt (ReadConfigMap jupyterhubCfg) = None"
    and "flt (RolloutDeploymentConfig ''jupyterhub-idle-culler'') = None"
  shows "fst (updateClusterSettings dashConfig q (cluster cms flt False)) = Inr (Result True None)
     \<and> calls (snd (updateClusterSettings dashConfig q (cluster cms flt False))) =
         [PatchConfigMap jupyterhubCfg
            [(''singleuser_pvc_size'', Some (p @ ''Gi'')), (''culler_timeout'', Some t)],
          ReadConfigMap jupyterhubCfg,
          RolloutDeploymentConfig ''jupyterhub-idle-culler'']"
  using assms(4-) legacy_strict [OF mode]
  by (simp add: updateClusterSettings_def update_tracking_def update_settings_def
      update_jupyterhub_def update_rollout_def update_catch_outcome settled_def catch_def
      bind_def resolve_def reject_def await_do_def await_def no_await_def serve_def settle_def
      cluster_def patchCM_def Boolean_js_def template_def Let_def)

lemma legacy_patch_before_read:
  assumes mode: "spec dashConfig = Some s" "notebookController s = Some nc" "\<not> enabled nc"
    and "q_userTrackingEnabled q = Some ''null''"
    and "q_pvcSize q = Some p" "p \<noteq> []" and "q_cullerTimeout q = Some t" "t \<noteq> []"
    and "cms jupyterhubCfg = Some cm"
    and "flt (PatchConfigMap jupyterhubCfg
           [(''singleuser_pvc_size'', Some (p @ ''Gi'')), (''culler_timeout'', Some t)]) = None"
  shows "RolloutDeploymentConfig ''jupyterhub-idle-culler''
     \<notin> set (calls (snd (updateClusterSettings dashConfig q (cluster cms flt True))))"
  using assms(4-) legacy_strict [OF mode]
  by (simp add: updateClusterSettings_def update_tracking_def update_settings_def
      update_jupyterhub_def update_rollout_def update_catch_outcome settled_def catch_def
      bind_def resolve_def reject_def await_do_def await_def no_await_def serve_def settle_def
      cluster_def patchCM_def Boolean_js_def template_def Let_def merge_patch_def not_found_def
      split: option.splits)

text \<open>
  C1. Disabling culling in notebook-controller mode when the culling ConfigMap is
  already absent: the request carries the pair of settings with the sentinel timeout and
  leaves tracking alone. The deletion is answered 404, the outer handler lets a 404
  pass without a value, and the function ends there: it resolves to no result instead
  of \<^verbatim>\<open>{success: true}\<close>, and the deletion is the only request sent, so the controller
  deployment is not rolled out.
\<close>

theorem disable_absent_configmap_no_result:
  "fst (updateClusterSettings controller_mode
     \<lparr>q_userTrackingEnabled = Some ''null'', q_pvcSize = Some ''20'',
      q_cullerTimeout = Some ''31536000''\<rparr>
     (cluster Map.empty no_fault False)) = Inr No_result
   \<and> calls (snd (updateClusterSettings controller_mode
     \<lparr>q_userTrackingEnabled = Some ''null'', q_pvcSize = Some ''20'',
      q_cullerTimeout = Some ''31536000''\<rparr>
     (cluster Map.empty no_fault False))) = [DeleteConfigMap nbcCfg]"
  by (simp add: upd_defs io_defs js_defs)

text \<open>
  C2. A write that fails in legacy mode: the patch of the legacy ConfigMap is answered
  500. The patch is not awaited, so its failure reaches no handler; the function reads
  the ConfigMap back, finds the old values, rolls out both workloads and resolves to
  \<^verbatim>\<open>{success: true, error: null}\<close>.
\<close>

theorem legacy_patch_failure_reported_as_success:
  "fst (updateClusterSettings legacy_mode
     \<lparr>q_userTrackingEnabled = Some ''null'', q_pvcSize = Some ''20'',
      q_cullerTimeout = Some ''3600''\<rparr>
     (cluster
        [jupyterhubCfg \<mapsto>
           Some [''singleuser_pvc_size'' \<mapsto> ''10Gi'', ''culler_timeout'' \<mapsto> ''1800'']]
        (no_fault (PatchConfigMap jupyterhubCfg
            [(''singleuser_pvc_size'', Some ''20Gi''), (''culler_timeout'', Some ''3600'')]
          := Some (HttpError 500 ''HTTP request failed'')))
        True)) = Inr (Result True None)
   \<and> calls (snd (updateClusterSettings legacy_mode
     \<lparr>q_userTrackingEnabled = Some ''null'', q_pvcSize = Some ''20'',
      q_cullerTimeout = Some ''3600''\<rparr>
     (cluster
        [jupyterhubCfg \<mapsto>
           Some [''singleuser_pvc_size'' \<mapsto> ''10Gi'', ''culler_timeout'' \<mapsto> ''1800'']]
        (no_fault (PatchConfigMap jupyterhubCfg
            [(''singleuser_pvc_size'', Some ''20Gi''), (''culler_timeout'', Some ''3600'')]
          := Some (HttpError 500 ''HTTP request failed'')))
        True))) =
     [PatchConfigMap jupyterhubCfg
        [(''singleuser_pvc_size'', Some ''20Gi''), (''culler_timeout'', Some ''3600'')],
      ReadConfigMap jupyterhubCfg,
      RolloutDeploymentConfig ''jupyterhub'',
      RolloutDeploymentConfig ''jupyterhub-idle-culler'']"
  by (simp add: upd_defs io_defs js_defs)

text \<open>
  C3. A culling ConfigMap that records culling as disabled, \<^verbatim>\<open>ENABLE_CULLING\<close> being
  \<^verbatim>\<open>'false'\<close>, with an idle time of 10 minutes: \<^verbatim>\<open>Boolean('false')\<close> is true, so
  \<^verbatim>\<open>getClusterSettings\<close> converts the idle time and returns a \<^verbatim>\<open>cullerTimeout\<close> of 600
  instead of the sentinel 31536000.
\<close>

theorem disabled_culling_read_as_enabled:
  "fst (getClusterSettings controller_mode
     (cluster
        [nbcCfg \<mapsto> Some [''ENABLE_CULLING'' \<mapsto> ''false'', ''CULL_IDLE_TIME'' \<mapsto> ''10'']]
        no_fault False))
   = Inr \<lparr>pvcSize = Whole 20, cullerTimeout = Whole 600, userTrackingEnabled = None\<rparr>"
  by (simp add: get_defs upd_defs io_defs js_defs Let_def)

text \<open>
  C4. Legacy mode, stored size 20Gi and timeout 3600, request for size 20 and timeout
  7200, and the cluster serves the patch before the read that follows it. The read
  then finds the timeout that was asked for, and \<^verbatim>\<open>updateClusterSettings\<close> rolls out
  nothing: the patch and the read are the only requests sent.
\<close>

theorem legacy_timeout_change_without_rollout:
  "fst (updateClusterSettings legacy_mode
     \<lparr>q_userTrackingEnabled = Some ''null'', q_pvcSize = Some ''20'',
      q_cullerTimeout = Some ''7200''\<rparr>
     (cluster
        [jupyterhubCfg \<mapsto>
           Some [''singleuser_pvc_size'' \<mapsto> ''20Gi'', ''culler_timeout'' \<mapsto> ''3600'']]
        no_fault True)) = Inr (Result True None)
   \<and> calls (snd (updateClusterSettings legacy_mode
     \<lparr>q_userTrackingEnabled = Some ''null'', q_pvcSize = Some ''20'',
      q_cullerTimeout = Some ''7200''\<rparr>
     (cluster
        [jupyterhubCfg \<mapsto>
           Some [''singleuser_pvc_size'' \<mapsto> ''20Gi'', ''culler_timeout'' \<mapsto> ''3600'']]
        no_fault True))) =
     [PatchConfigMap jupyterhubCfg
        [(''singleuser_pvc_size'', Some ''20Gi''), (''culler_timeout'', Some ''7200'')],
      ReadConfigMap jupyterhubCfg]"
  by (simp add: upd_defs io_defs js_defs)

end
